theory Spec2Isabelle
  imports Complex_Main "HOL-Library.Sublist" "HOL-Library.AList" "HOL-Library.Multiset"
begin

section \<open>Python values used by app.py\<close>

text \<open>
  The nutrient pipeline of \<^verbatim>\<open>app.py\<close> works on Python floats, strings, tuples, lists and
  dictionaries.

  \<^item> A Python float is modelled as a \<^typ>\<open>real\<close>: arithmetic is exact. Rounding to binary64,
    infinities, NaN and overflow are outside this model.
  \<^item> A Python \<^verbatim>\<open>str\<close> is a \<^typ>\<open>string\<close>, one \<^typ>\<open>char\<close> per character. The string
    functions below are those of Python on ASCII text; characters above 127 are left
    unchanged by \<open>lower\<close> and are never whitespace.
  \<^item> A dictionary is an association list in insertion order with distinct keys;
    assignment \<^verbatim>\<open>d[k] = v\<close> is \<^const>\<open>AList.update\<close> (a present key keeps its place, a new
    key goes to the end), \<^verbatim>\<open>d.get(k, default)\<close> is \<open>dict_get\<close>.
  \<^item> A value that may be \<^verbatim>\<open>None\<close> or absent is an \<^typ>\<open>'a option\<close>.
\<close>

subsection \<open>Strings\<close>

definition ascii_uppercase :: string where
  "ascii_uppercase = ''ABCDEFGHIJKLMNOPQRSTUVWXYZ''"

definition ascii_lowercase :: string where
  "ascii_lowercase = ''abcdefghijklmnopqrstuvwxyz''"

definition lower_char :: "char \<Rightarrow> char" where
  "lower_char c =
     (case map_of (zip ascii_uppercase ascii_lowercase) c of None \<Rightarrow> c | Some d \<Rightarrow> d)"

text \<open>\<^verbatim>\<open>s.lower()\<close>\<close>

definition lower :: "string \<Rightarrow> string" where
  "lower s = map lower_char s"

text \<open>
  The ASCII characters for which \<^verbatim>\<open>str.isspace()\<close> holds: tab, line feed, vertical tab,
  form feed, carriage return, the four separators 0x1C to 0x1F, and the space.
\<close>

definition whitespace :: string where
  "whitespace = [CHR 0x09, CHR 0x0A, CHR 0x0B, CHR 0x0C, CHR 0x0D,
                 CHR 0x1C, CHR 0x1D, CHR 0x1E, CHR 0x1F, CHR '' '']"

definition isspace :: "char \<Rightarrow> bool" where
  "isspace c = (c \<in> set whitespace)"

text \<open>\<^verbatim>\<open>s.strip()\<close>: leading and trailing whitespace removed.\<close>

definition strip :: "string \<Rightarrow> string" where
  "strip s = rev (dropWhile isspace (rev (dropWhile isspace s)))"

text \<open>
  \<^verbatim>\<open>x or ""\<close> for a string that may be \<^verbatim>\<open>None\<close>: the empty string is falsy, so both
  \<^verbatim>\<open>None\<close> and \<^verbatim>\<open>""\<close> give \<^verbatim>\<open>""\<close>.
\<close>

definition or_empty :: "string option \<Rightarrow> string" where
  "or_empty x = (case x of None \<Rightarrow> [] | Some s \<Rightarrow> s)"

text \<open>
  \<^verbatim>\<open>s in low\<close> on strings is containment of a contiguous substring, which is
  \<^term>\<open>sublist s low\<close>: \<^term>\<open>\<exists>ps ss. low = ps @ s @ ss\<close>.
\<close>

subsection \<open>Dictionaries\<close>

type_synonym ('k, 'v) dict = "('k \<times> 'v) list"

text \<open>\<^verbatim>\<open>d.get(k, default)\<close>\<close>

definition dict_get :: "('k, 'v) dict \<Rightarrow> 'k \<Rightarrow> 'v \<Rightarrow> 'v" where
  "dict_get d k dflt = (case map_of d k of None \<Rightarrow> dflt | Some v \<Rightarrow> v)"

section \<open>Unit conversion and nutrient keys\<close>

text \<open>
  \<^verbatim>\<open>
  def convert_to_mg(amount: float, unit: str) -> float:
      unit = (unit or "").lower()
      if unit in ("g", "gram", "grams"):
          return amount * 1000.0
      if unit in ("mg", "milligram", "milligrams"):
          return amount
      return amount
  \<close>
  The unit may be \<^verbatim>\<open>None\<close>, hence the option.
\<close>

definition convert_to_mg :: "real \<Rightarrow> string option \<Rightarrow> real" where
  "convert_to_mg amount unit =
     (let unit = lower (or_empty unit) in
      if unit \<in> set [''g'', ''gram'', ''grams''] then amount * 1000
      else if unit \<in> set [''mg'', ''milligram'', ''milligrams''] then amount
      else amount)"

text \<open>
  \<^verbatim>\<open>
  NUTRIENT_KEY_MAP = {
      "Protein": ["protein"],
      "Vitamin C": ["vitamin c", "ascorbic acid"],
      "Iron": ["iron"],
      "Calcium": ["calcium"],
      "Fiber": ["fiber", "dietary fiber"],
  }
  \<close>
\<close>

definition NUTRIENT_KEY_MAP :: "(string, string list) dict" where
  "NUTRIENT_KEY_MAP =
     [(''Protein'', [''protein'']),
      (''Vitamin C'', [''vitamin c'', ''ascorbic acid'']),
      (''Iron'', [''iron'']),
      (''Calcium'', [''calcium'']),
      (''Fiber'', [''fiber'', ''dietary fiber''])]"

text \<open>
  The key matching inside the loop of \<^verbatim>\<open>analyze\<close>:
  \<^verbatim>\<open>
  matched_key = None
  low = full_name.lower()
  for friendly, substrings in NUTRIENT_KEY_MAP.items():
      if any(s in low for s in substrings):
          matched_key = friendly
          break
  \<close>
  The loop leaves at the first entry with a trigger inside \<open>low\<close>, which is
  \<^const>\<open>find\<close> on the entries in order.
\<close>

definition match_key :: "string \<Rightarrow> string option" where
  "match_key full_name =
     (let low = lower full_name in
      map_option fst
        (find (\<lambda>(friendly, substrings). list_ex (\<lambda>s. sublist s low) substrings)
           NUTRIENT_KEY_MAP))"

section \<open>Floats as text\<close>

text \<open>
  The reports print \<^verbatim>\<open>f"{round(x, 2)} g"\<close>. Python rounds the exact value of \<open>x\<close> to two
  decimals, a tie going to the even neighbour, and prints the result with the fewest digits
  that read back the same float and at least one digit after the point: \<^verbatim>\<open>50.0\<close>,
  \<^verbatim>\<open>12.3\<close>, \<^verbatim>\<open>12.34\<close>; a negative value that rounds to zero prints as \<^verbatim>\<open>-0.0\<close>.
  \<open>str_round2\<close> is that text for \<open>\<bar>x\<bar> < 10 ^ 16\<close>; from there on Python prints an exponent,
  which is outside this model.
\<close>

definition digit_char :: "nat \<Rightarrow> char" where
  "digit_char d = ''0123456789'' ! (d mod 10)"

fun str_nat :: "nat \<Rightarrow> string" where
  "str_nat n = (if n < 10 then [digit_char n] else str_nat (n div 10) @ [digit_char (n mod 10)])"

declare str_nat.simps [simp del]

definition round_half_even :: "real \<Rightarrow> int" where
  "round_half_even x =
     (let f = \<lfloor>x\<rfloor>; d = x - of_int f in
      if d < 1 / 2 then f
      else if d > 1 / 2 then f + 1
      else if even f then f else f + 1)"

definition str_round2 :: "real \<Rightarrow> string" where
  "str_round2 x =
     (let n = nat \<bar>round_half_even (x * 100)\<bar>;
          whole = n div 100;
          frac = n mod 100
      in (if x < 0 then ''-'' else '''') @ str_nat whole @ ''.'' @
         (if frac mod 10 = 0 then [digit_char (frac div 10)]
          else [digit_char (frac div 10), digit_char (frac mod 10)]))"

section \<open>Deficiency evaluation\<close>

text \<open>
  \<^verbatim>\<open>
  def calculate_deficiency(total_nutrients_mg, gender, height_cm, weight_kg):
      baseline = {
          "Protein_g": 50.0,
          "Vitamin C_mg": 90.0,
          "Iron_mg": 18.0 if gender.lower() == "female" else 8.0,
          "Calcium_mg": 1000.0,
          "Fiber_g": 30.0,
      }
      bmi = weight_kg / ((height_cm / 100.0) ** 2) if height_cm > 0 else 0
      if bmi and bmi < 18.5:
          for k in list(baseline.keys()):
              baseline[k] *= 1.10
      elif bmi and bmi > 25:
          for k in list(baseline.keys()):
              baseline[k] *= 0.90
  \<close>
  The baseline dictionary has five fixed keys and is read by literal key only, so it is a
  record with one field per key. The truth value of the float \<open>bmi\<close> is \<open>bmi \<noteq> 0\<close>.
\<close>

record baseline =
  Protein_g :: real
  Vitamin_C_mg :: real
  Iron_mg :: real
  Calcium_mg :: real
  Fiber_g :: real

definition default_baseline :: "string \<Rightarrow> baseline" where
  "default_baseline gender =
     \<lparr>Protein_g = 50, Vitamin_C_mg = 90,
      Iron_mg = (if lower gender = ''female'' then 18 else 8),
      Calcium_mg = 1000, Fiber_g = 30\<rparr>"

definition bmi_of :: "real \<Rightarrow> real \<Rightarrow> real" where
  "bmi_of height_cm weight_kg =
     (if height_cm > 0 then weight_kg / ((height_cm / 100) ^ 2) else 0)"

text \<open>\<^verbatim>\<open>for k in list(baseline.keys()): baseline[k] *= c\<close>\<close>

definition scale_baseline :: "real \<Rightarrow> baseline \<Rightarrow> baseline" where
  "scale_baseline c b =
     \<lparr>Protein_g = Protein_g b * c, Vitamin_C_mg = Vitamin_C_mg b * c,
      Iron_mg = Iron_mg b * c, Calcium_mg = Calcium_mg b * c, Fiber_g = Fiber_g b * c\<rparr>"

definition adjusted_baseline :: "string \<Rightarrow> real \<Rightarrow> real \<Rightarrow> baseline" where
  "adjusted_baseline gender height_cm weight_kg =
     (let baseline = default_baseline gender;
          bmi = bmi_of height_cm weight_kg
      in if bmi \<noteq> 0 \<and> bmi < 18.5 then scale_baseline 1.10 baseline
         else if bmi \<noteq> 0 \<and> bmi > 25 then scale_baseline 0.90 baseline
         else baseline)"

text \<open>
  \<^verbatim>\<open>
      deficiencies = {}
      protein_mg = total_nutrients_mg.get("Protein", 0.0)
      fiber_mg = total_nutrients_mg.get("Fiber", 0.0)
      if protein_mg < (baseline["Protein_g"] * 1000.0) * 0.6:
          need_mg = baseline["Protein_g"] * 1000.0 - protein_mg
          deficiencies["Protein"] = f"{round(need_mg/1000.0, 2)} g"
      if fiber_mg < (baseline["Fiber_g"] * 1000.0) * 0.6:
          need_mg = baseline["Fiber_g"] * 1000.0 - fiber_mg
          deficiencies["Fiber"] = f"{round(need_mg/1000.0, 2)} g"

      for short_key, base_key in [("Vitamin C", "Vitamin C_mg"), ("Iron", "Iron_mg"),
                                  ("Calcium", "Calcium_mg")]:
          have = total_nutrients_mg.get(short_key, 0.0)
          need = baseline[base_key]
          if have < need * 0.6:
              need_more = need - have
              deficiencies[short_key] = f"{round(need_more, 2)} mg"
      return deficiencies
  \<close>
\<close>

definition flag_grams ::
  "(string, real) dict \<Rightarrow> string \<Rightarrow> real \<Rightarrow> (string, string) dict \<Rightarrow> (string, string) dict" where
  "flag_grams total_nutrients_mg key base_g deficiencies =
     (let have_mg = dict_get total_nutrients_mg key 0 in
      if have_mg < (base_g * 1000) * 0.6 then
        (let need_mg = base_g * 1000 - have_mg in
         AList.update key (str_round2 (need_mg / 1000) @ '' g'') deficiencies)
      else deficiencies)"

definition flag_mg ::
  "(string, real) dict \<Rightarrow> string \<times> real \<Rightarrow> (string, string) dict \<Rightarrow> (string, string) dict" where
  "flag_mg total_nutrients_mg = (\<lambda>(short_key, need) deficiencies.
     let have = dict_get total_nutrients_mg short_key 0 in
     if have < need * 0.6 then
       (let need_more = need - have in
        AList.update short_key (str_round2 need_more @ '' mg'') deficiencies)
     else deficiencies)"

definition calculate_deficiency ::
  "(string, real) dict \<Rightarrow> string \<Rightarrow> real \<Rightarrow> real \<Rightarrow> (string, string) dict" where
  "calculate_deficiency total_nutrients_mg gender height_cm weight_kg =
     (let baseline = adjusted_baseline gender height_cm weight_kg;
          deficiencies = [];
          deficiencies = flag_grams total_nutrients_mg ''Protein'' (Protein_g baseline) deficiencies;
          deficiencies = flag_grams total_nutrients_mg ''Fiber'' (Fiber_g baseline) deficiencies
      in fold (flag_mg total_nutrients_mg)
           [(''Vitamin C'', Vitamin_C_mg baseline), (''Iron'', Iron_mg baseline),
            (''Calcium'', Calcium_mg baseline)]
           deficiencies)"

section \<open>Recommendations\<close>

text \<open>
  The weather dictionary that \<^verbatim>\<open>get_weather\<close> builds has the keys \<^verbatim>\<open>condition\<close>,
  \<^verbatim>\<open>temp\<close> and \<^verbatim>\<open>humidity\<close>. \<^verbatim>\<open>recommend_foods\<close> reads \<^verbatim>\<open>weather.get("temp", 0)\<close>, so
  the field \<open>temp\<close> is optional here: \<open>None\<close> is a dictionary without that key. The
  argument of \<^verbatim>\<open>recommend_foods\<close> is a \<^typ>\<open>'a option\<close>, \<open>None\<close> standing for a falsy
  weather (\<^verbatim>\<open>None\<close> or the empty dictionary).
\<close>

record weather =
  condition :: string
  temp :: "real option"
  humidity :: real

text \<open>
  \<^verbatim>\<open>
  def recommend_foods(defic: Dict[str,str], weather: Dict[str,Any]):
      base = {
          "Protein": [("Chicken", "27 g"), ("Eggs", "13 g"), ("Paneer", "18 g")],
          "Iron": [("Spinach", "2.7 mg"), ("Liver", "6.5 mg"), ("Beans", "3.7 mg")],
          "Calcium": [("Milk", "120 mg"), ("Curd", "80 mg"), ("Almonds", "75 mg")],
          "Fiber": [("Oats", "10 g"), ("Apple", "4.5 g"), ("Carrots", "3 g")],
          "Vitamin C": [("Orange", "53 mg"), ("Guava", "200 mg"), ("Kiwi", "90 mg")],
      }
      temp_foods = ["Cucumber", "Yogurt"] if weather and weather.get("temp", 0) > 30
                   else ["Soup", "Eggs"]
      rec = []
      for n in defic.keys():
          rec.extend(base.get(n, []))
      for f in temp_foods:
          rec.append((f, "-", "-"))
      return rec[:10]
  \<close>
  The entries of \<open>rec\<close> are tuples of strings of two lengths: the table's entries have two
  components, the appended ones three. A tuple is modelled as the list of its components,
  which is also what the JSON response holds (an array per tuple).
\<close>

type_synonym entry = "string list"

definition base :: "(string, entry list) dict" where
  "base =
     [(''Protein'', [[''Chicken'', ''27 g''], [''Eggs'', ''13 g''], [''Paneer'', ''18 g'']]),
      (''Iron'', [[''Spinach'', ''2.7 mg''], [''Liver'', ''6.5 mg''], [''Beans'', ''3.7 mg'']]),
      (''Calcium'', [[''Milk'', ''120 mg''], [''Curd'', ''80 mg''], [''Almonds'', ''75 mg'']]),
      (''Fiber'', [[''Oats'', ''10 g''], [''Apple'', ''4.5 g''], [''Carrots'', ''3 g'']]),
      (''Vitamin C'', [[''Orange'', ''53 mg''], [''Guava'', ''200 mg''], [''Kiwi'', ''90 mg'']])]"

definition temp_foods :: "weather option \<Rightarrow> string list" where
  "temp_foods weather =
     (if (case weather of None \<Rightarrow> False
          | Some w \<Rightarrow> (case temp w of None \<Rightarrow> 0 | Some t \<Rightarrow> t) > 30)
      then [''Cucumber'', ''Yogurt''] else [''Soup'', ''Eggs''])"

definition recommend_foods :: "(string, string) dict \<Rightarrow> weather option \<Rightarrow> entry list" where
  "recommend_foods defic weather =
     (let rec = [];
          rec = fold (\<lambda>n rec. rec @ dict_get base n []) (map fst defic) rec;
          rec = fold (\<lambda>f rec. rec @ [[f, ''-'', ''-'']]) (temp_foods weather) rec
      in take 10 rec)"

section \<open>External services\<close>

text \<open>
  The two HTTP services are parameters of the model: a function from the query to the
  outcome of the request, \<open>None\<close> for everything the \<^verbatim>\<open>try\<close> block catches (network
  error, timeout, error status, a body that is not the expected JSON). The model records
  each request that is sent in a list of calls.
\<close>

datatype call = Weather_call string | Usda_call string

text \<open>
  One element of \<^verbatim>\<open>foodNutrients\<close> in the reply of the food service, with the keys the
  code reads. \<open>n_value\<close> is \<open>None\<close> when the value is missing, null, or not convertible by
  \<^verbatim>\<open>float\<close>: the entry is left out in all three cases.
\<close>

record nutrient_entry =
  n_nutrientName :: "string option"
  n_name :: "string option"
  n_value :: "real option"
  n_unitName :: "string option"
  n_unit :: "string option"

text \<open>The reply of the food search: the \<^verbatim>\<open>foodNutrients\<close> list of each food found.\<close>

type_synonym usda_api = "string \<Rightarrow> nutrient_entry list list option"

text \<open>The fields \<^verbatim>\<open>condition.text\<close>, \<^verbatim>\<open>temp_c\<close> and \<^verbatim>\<open>humidity\<close> of the weather reply.\<close>

type_synonym weather_api = "string \<Rightarrow> (string \<times> real \<times> real) option"

record env =
  WEATHER_API_KEY :: string
  weather_service :: weather_api
  usda_service :: usda_api

text \<open>
  \<^verbatim>\<open>
  def get_weather(city: str):
      if not WEATHER_API_KEY:
          return {"condition": "Unknown", "temp": 25, "humidity": 50}
      try:
          ...
          r = requests.get(url, params=params, timeout=8)
          r.raise_for_status()
          d = r.json()
          return {"condition": d["current"]["condition"]["text"],
                  "temp": d["current"]["temp_c"], "humidity": d["current"]["humidity"]}
      except Exception as e:
          return {"condition": "Unknown", "temp": 25, "humidity": 50}
  \<close>
\<close>

definition default_weather :: weather where
  "default_weather = \<lparr>condition = ''Unknown'', temp = Some 25, humidity = 50\<rparr>"

definition get_weather :: "env \<Rightarrow> string \<Rightarrow> call list \<times> weather" where
  "get_weather e city =
     (if WEATHER_API_KEY e = [] then ([], default_weather)
      else ([Weather_call city],
            case weather_service e city of
              None \<Rightarrow> default_weather
            | Some (text, temp_c, hum) \<Rightarrow> \<lparr>condition = text, temp = Some temp_c, humidity = hum\<rparr>))"

text \<open>
  \<^verbatim>\<open>
  def get_food_nutrients(food: str) -> Dict[str, tuple]:
      ...
      try:
          r = requests.get(url, params=params, timeout=10)
          r.raise_for_status()
          data = r.json()
          nutrients = {}
          foods = data.get("foods", [])
          if not foods:
              return nutrients
          food_data = foods[0]
          for n in food_data.get("foodNutrients", []):
              name = n.get("nutrientName") or n.get("name")
              val = n.get("value")
              unit = n.get("unitName") or n.get("unit")
              if name and val is not None:
                  try:
                      nutrients[name.strip()] = (float(val), unit or "")
                  except Exception:
                      continue
          return nutrients
      except Exception as e:
          return {}
  \<close>
  \<^verbatim>\<open>a or b\<close> on optional strings is \<open>a\<close> when \<open>a\<close> is a non-empty string and \<open>b\<close> otherwise.
\<close>

definition or_else :: "string option \<Rightarrow> string option \<Rightarrow> string option" where
  "or_else a b = (case a of Some (c # cs) \<Rightarrow> a | _ \<Rightarrow> b)"

type_synonym nutrients = "(string, real \<times> string) dict"

definition store_nutrient :: "nutrient_entry \<Rightarrow> nutrients \<Rightarrow> nutrients" where
  "store_nutrient n nutrients =
     (let name = or_else (n_nutrientName n) (n_name n);
          val = n_value n;
          unit = or_else (n_unitName n) (n_unit n)
      in case (name, val) of
           (Some (c # cs), Some v) \<Rightarrow> AList.update (strip (c # cs)) (v, or_empty unit) nutrients
         | _ \<Rightarrow> nutrients)"

definition get_food_nutrients :: "usda_api \<Rightarrow> string \<Rightarrow> nutrients" where
  "get_food_nutrients usda food =
     (case usda food of
        None \<Rightarrow> []
      | Some foods \<Rightarrow>
          (case foods of
             [] \<Rightarrow> []
           | food_data # _ \<Rightarrow> fold store_nutrient food_data []))"

section \<open>The aggregation endpoint\<close>

text \<open>
  The JSON body of the request, with the keys \<^verbatim>\<open>analyze\<close> reads. A field is \<open>None\<close> when
  the key is missing (for \<open>req_city\<close>, \<open>it_name\<close>: also null); a number field is \<open>None\<close> when
  the \<^verbatim>\<open>float(... or 0)\<close> of the code falls back to zero (missing, null, or not convertible).
\<close>

record item =
  it_name :: "string option"
  it_qty :: "real option"

record request =
  req_city :: "string option"
  req_items :: "item list"
  req_gender :: "string option"
  req_height :: "real option"
  req_weight :: "real option"

text \<open>
  The loop of \<^verbatim>\<open>analyze\<close> over the items:
  \<^verbatim>\<open>
  totals_mg = {}
  for it in items:
      name = (it.get("name") or "").strip()
      try:
          qty_g = float(it.get("qty") or 0)
      except Exception:
          qty_g = 0.0
      if not name or qty_g <= 0:
          continue
      nut = get_food_nutrients(name)
      for full_name, (val, unit) in nut.items():
          try:
              actual = float(val) * (qty_g / 100.0)
          except Exception:
              continue
          matched_key = None
          low = full_name.lower()
          for friendly, substrings in NUTRIENT_KEY_MAP.items(): ...
          if not matched_key:
              continue
          amount_mg = convert_to_mg(actual, unit)
          totals_mg[matched_key] = totals_mg.get(matched_key, 0.0) + amount_mg
  \<close>
\<close>

type_synonym totals = "(string, real) dict"

definition item_name :: "item \<Rightarrow> string" where
  "item_name it = strip (or_empty (it_name it))"

definition item_qty_g :: "item \<Rightarrow> real" where
  "item_qty_g it = (case it_qty it of None \<Rightarrow> 0 | Some q \<Rightarrow> q)"

definition add_sample :: "real \<Rightarrow> string \<times> real \<times> string \<Rightarrow> totals \<Rightarrow> totals" where
  "add_sample qty_g = (\<lambda>(full_name, val, unit) totals_mg.
     let actual = val * (qty_g / 100) in
     case match_key full_name of
       None \<Rightarrow> totals_mg
     | Some matched_key \<Rightarrow>
         (let amount_mg = convert_to_mg actual (Some unit) in
          AList.update matched_key (dict_get totals_mg matched_key 0 + amount_mg) totals_mg))"

definition analyze_item :: "usda_api \<Rightarrow> item \<Rightarrow> totals \<Rightarrow> call list \<times> totals" where
  "analyze_item usda it totals_mg =
     (let name = item_name it;
          qty_g = item_qty_g it
      in if name = [] \<or> qty_g \<le> 0 then ([], totals_mg)
         else (let nut = get_food_nutrients usda name in
               ([Usda_call name], fold (add_sample qty_g) nut totals_mg)))"

fun analyze_items :: "usda_api \<Rightarrow> item list \<Rightarrow> totals \<Rightarrow> call list \<times> totals" where
  "analyze_items usda [] totals_mg = ([], totals_mg)"
| "analyze_items usda (it # items) totals_mg =
     (let (calls, totals_mg) = analyze_item usda it totals_mg;
          (calls', totals_mg) = analyze_items usda items totals_mg
      in (calls @ calls', totals_mg))"

text \<open>
  \<^verbatim>\<open>
  human_totals = {}
  for k, v in totals_mg.items():
      if k in ("Protein", "Fiber"):
          human_totals[k] = f"{round(v/1000.0, 2)} g"
      else:
          human_totals[k] = f"{round(v, 2)} mg"
  \<close>
\<close>

definition human_totals :: "totals \<Rightarrow> (string, string) dict" where
  "human_totals totals_mg =
     fold (\<lambda>(k, v) h.
             if k \<in> set [''Protein'', ''Fiber''] then AList.update k (str_round2 (v / 1000) @ '' g'') h
             else AList.update k (str_round2 v @ '' mg'') h)
       totals_mg []"

text \<open>
  \<^verbatim>\<open>
  def analyze():
      data = request.get_json() or {}
      city = (data.get("city") or "").strip()
      items = data.get("items", [])
      gender = data.get("gender", "male")
      try: height = float(data.get("height") or 0)
      except Exception: height = 0.0
      try: weight = float(data.get("weight") or 0)
      except Exception: weight = 0.0

      if not city:
          return jsonify({"error": "City required"}), 400

      weather = get_weather(city)
      ... the loop over the items ...
      defic = calculate_deficiency(totals_mg, gender, height, weight)
      rec = recommend_foods(defic, weather)
      ... human_totals ...
      return jsonify({"weather": weather, "total_nutrients": human_totals,
                      "deficient": defic, "recommendations": rec})
  \<close>
  The result is the list of requests sent to the two services, in order, and the HTTP
  response: its status code and its JSON body.
\<close>

record analysis =
  a_weather :: weather
  total_nutrients :: "(string, string) dict"
  deficient :: "(string, string) dict"
  recommendations :: "entry list"

datatype body = Error string | Analysis analysis

type_synonym response = "nat \<times> body"

definition analyze :: "env \<Rightarrow> request \<Rightarrow> call list \<times> response" where
  "analyze e r =
     (let city = strip (or_empty (req_city r));
          items = req_items r;
          gender = (case req_gender r of None \<Rightarrow> ''male'' | Some g \<Rightarrow> g);
          height = (case req_height r of None \<Rightarrow> 0 | Some h \<Rightarrow> h);
          weight = (case req_weight r of None \<Rightarrow> 0 | Some w \<Rightarrow> w)
      in if city = [] then ([], (400, Error ''City required''))
         else
           (let (calls, weather) = get_weather e city;
                (calls', totals_mg) = analyze_items (usda_service e) items [];
                defic = calculate_deficiency totals_mg gender height weight;
                rec = recommend_foods defic (Some weather)
            in (calls @ calls',
                (200, Analysis \<lparr>a_weather = weather, total_nutrients = human_totals totals_mg,
                                 deficient = defic, recommendations = rec\<rparr>))))"

section \<open>The accumulator in the words of the specification\<close>

text \<open>
  The specification describes the accumulator as
  \<^verbatim>\<open>accumulate(items: list<(name, quantityGrams)>, fetchNutrients) -> CanonicalTotals\<close>:
  the totals start all zero; an item with an empty name or a quantity that is not greater
  than zero is skipped; for every other item each fetched sample
  \<open>(nutrientName, amount, unit)\<close> is scaled by \<open>quantityGrams / 100\<close>, its name is matched, and,
  if it matches a category, the scaled amount converted to milligrams is added to the
  running total of that category. The two definitions below follow these words; the
  totals are a function from the category to its running total.
\<close>

type_synonym sample = "string \<times> real \<times> string"

definition spec_add_sample :: "real \<Rightarrow> sample \<Rightarrow> (string \<Rightarrow> real) \<Rightarrow> (string \<Rightarrow> real)" where
  "spec_add_sample quantityGrams = (\<lambda>(nutrientName, amount, unit) total.
     let scaled = amount * (quantityGrams / 100) in
     case match_key nutrientName of
       None \<Rightarrow> total
     | Some category \<Rightarrow> total(category := total category + convert_to_mg scaled (Some unit)))"

definition spec_accumulate ::
  "(string \<times> real) list \<Rightarrow> (string \<Rightarrow> sample list) \<Rightarrow> (string \<Rightarrow> real)" where
  "spec_accumulate items fetchNutrients =
     fold (\<lambda>(name, quantityGrams) total.
             if name = [] \<or> \<not> quantityGrams > 0 then total
             else fold (spec_add_sample quantityGrams) (fetchNutrients name) total)
       items (\<lambda>category. 0)"

text \<open>The running total a dictionary of totals holds for a category: absent is zero.\<close>

definition reading :: "totals \<Rightarrow> string \<Rightarrow> real" where
  "reading totals_mg = (\<lambda>category. dict_get totals_mg category 0)"

text \<open>The tracked categories: the keys of \<open>NUTRIENT_KEY_MAP\<close>.\<close>

definition categories :: "string set" where
  "categories = {''Protein'', ''Vitamin C'', ''Iron'', ''Calcium'', ''Fiber''}"

text \<open>
  The loop of \<^verbatim>\<open>analyze\<close> read on the dictionary as a finite map, forgetting the order
  of its keys: one sample, and one item.
\<close>

definition map_add_sample ::
  "real \<Rightarrow> sample \<Rightarrow> (string \<rightharpoonup> real) \<Rightarrow> (string \<rightharpoonup> real)" where
  "map_add_sample qty_g = (\<lambda>(full_name, val, unit) m.
     case match_key full_name of
       None \<Rightarrow> m
     | Some k \<Rightarrow>
         m(k \<mapsto> (case m k of None \<Rightarrow> 0 | Some x \<Rightarrow> x) +
                  convert_to_mg (val * (qty_g / 100)) (Some unit)))"

definition map_item :: "usda_api \<Rightarrow> item \<Rightarrow> (string \<rightharpoonup> real) \<Rightarrow> (string \<rightharpoonup> real)" where
  "map_item usda it m =
     (if item_name it = [] \<or> item_qty_g it \<le> 0 then m
      else fold (map_add_sample (item_qty_g it)) (get_food_nutrients usda (item_name it)) m)"

section \<open>Example inputs\<close>

text \<open>
  A food service that knows one food, "egg", with 10 g of protein per 100 g, a potassium
  entry that matches no category and an iron entry without a value; every other query
  fails. A list of items with surrounding blanks in a name, a blank name, an unknown food,
  a negative quantity and an item without fields. A configuration whose weather service
  fails.
\<close>

definition demo_usda :: usda_api where
  "demo_usda food =
     (if food = ''egg'' then
        Some [[\<lparr>n_nutrientName = Some ''Protein'', n_name = None, n_value = Some 10,
                 n_unitName = Some ''G'', n_unit = None\<rparr>,
               \<lparr>n_nutrientName = None, n_name = Some '' Potassium, K '', n_value = Some 126,
                 n_unitName = None, n_unit = Some ''MG''\<rparr>,
               \<lparr>n_nutrientName = Some ''Iron, Fe'', n_name = None, n_value = None,
                 n_unitName = Some ''MG'', n_unit = None\<rparr>]]
      else None)"

definition demo_items :: "item list" where
  "demo_items =
     [\<lparr>it_name = Some '' egg '', it_qty = Some 100\<rparr>,
      \<lparr>it_name = Some ''  '', it_qty = Some 50\<rparr>,
      \<lparr>it_name = Some ''egg'', it_qty = Some 200\<rparr>,
      \<lparr>it_name = Some ''rice'', it_qty = Some 150\<rparr>,
      \<lparr>it_name = Some ''egg'', it_qty = Some (- 5)\<rparr>,
      \<lparr>it_name = None, it_qty = None\<rparr>]"

definition demo_env :: env where
  "demo_env = \<lparr>WEATHER_API_KEY = ''key'', weather_service = (\<lambda>city. None),
               usda_service = demo_usda\<rparr>"

section \<open>Evaluation rules for concrete inputs\<close>

lemmas string_eval =
  lower_def lower_char_def ascii_uppercase_def ascii_lowercase_def
  strip_def isspace_def whitespace_def or_empty_def sublist_code

lemmas fmt_eval = str_round2_def round_half_even_def str_nat.simps digit_char_def

lemma str_round2_examples:
  "str_round2 50 = ''50.0''" "str_round2 30 = ''30.0''" "str_round2 90 = ''90.0''"
  "str_round2 18 = ''18.0''" "str_round2 1000 = ''1000.0''"
  by (simp_all add: fmt_eval)

lemma str_round2_rounding:
  "str_round2 12.345 = ''12.34''" "str_round2 12.355 = ''12.36''" "str_round2 0.07 = ''0.07''"
  "str_round2 (- 0.001) = ''-0.0''" "str_round2 1234.5 = ''1234.5''"
  by (simp_all add: fmt_eval)

lemma demo_egg:
  "get_food_nutrients demo_usda ''egg'' = [(''Protein'', 10, ''G''), (''Potassium, K'', 126, ''MG'')]"
  by (simp add: get_food_nutrients_def demo_usda_def store_nutrient_def or_else_def string_eval)

lemma demo_rice: "get_food_nutrients demo_usda ''rice'' = []"
  by (simp add: get_food_nutrients_def demo_usda_def)

lemma demo_fields:
  "map (\<lambda>it. (item_name it, item_qty_g it)) demo_items =
     [(''egg'', 100), ([], 50), (''egg'', 200), (''rice'', 150), (''egg'', - 5), ([], 0)]"
  by (simp add: demo_items_def item_name_def item_qty_g_def string_eval)

lemma demo_match:
  "match_key ''Protein'' = Some ''Protein''" "match_key ''Potassium, K'' = None"
  by (simp_all add: match_key_def NUTRIENT_KEY_MAP_def string_eval)

lemma demo_add_sample:
  "add_sample q (''Protein'', 10, ''G'') t =
     AList.update ''Protein'' (dict_get t ''Protein'' 0 + 10 * (q / 100) * 1000) t"
  "add_sample q (''Potassium, K'', 126, ''MG'') t = t"
  by (simp_all add: add_sample_def demo_match convert_to_mg_def string_eval)

lemma demo_totals:
  "analyze_items demo_usda demo_items [] =
     ([Usda_call ''egg'', Usda_call ''egg'', Usda_call ''rice''], [(''Protein'', 30000)])"
proof -
  have n: "map item_name demo_items = [''egg'', [], ''egg'', ''rice'', ''egg'', []]"
    "map item_qty_g demo_items = [100, 50, 200, 150, - 5, 0]"
    using demo_fields by (simp_all add: demo_items_def)
  show ?thesis
    using n by (simp add: demo_items_def analyze_item_def demo_egg demo_rice demo_add_sample dict_get_def)
qed

section \<open>Unit conversion\<close>

text \<open>
  Claim C4. For every amount \<open>x\<close> and unit \<open>u\<close>, \<open>convert_to_mg\<close> returns \<open>x * 1000\<close> when
  \<open>u\<close> is, ignoring case, one of "g", "gram", "grams"; it returns \<open>x\<close> when \<open>u\<close> is, ignoring
  case, one of "mg", "milligram", "milligrams"; and it returns \<open>x\<close> unchanged for every other
  unit and for a missing unit. The function has no failing branch.
\<close>

theorem convert_to_mg_cases:
  "(lower u \<in> {''g'', ''gram'', ''grams''} \<longrightarrow> convert_to_mg x (Some u) = x * 1000) \<and>
   (lower u \<in> {''mg'', ''milligram'', ''milligrams''} \<longrightarrow> convert_to_mg x (Some u) = x) \<and>
   (lower u \<notin> {''g'', ''gram'', ''grams''} \<longrightarrow> convert_to_mg x (Some u) = x) \<and>
   convert_to_mg x None = x"
  by (simp add: convert_to_mg_def or_empty_def lower_def)

theorem convert_to_mg_cases_witness:
  "convert_to_mg 2.5 (Some ''Grams'') = 2500 \<and>
   convert_to_mg 2.5 (Some ''MG'') = 2.5 \<and>
   convert_to_mg 2.5 (Some ''mcg'') = 2.5 \<and>
   convert_to_mg 2.5 (Some '''') = 2.5 \<and>
   convert_to_mg 2.5 None = 2.5"
  using convert_to_mg_cases [of "''Grams''" "2.5"] convert_to_mg_cases [of "''MG''" "2.5"]
    convert_to_mg_cases [of "''mcg''" "2.5"] convert_to_mg_cases [of "''''" "2.5"]
  by (simp add: string_eval)

section \<open>Key matching\<close>

lemma match_key_chain:
  "match_key n =
     (if sublist ''protein'' (lower n) then Some ''Protein''
      else if sublist ''vitamin c'' (lower n) \<or> sublist ''ascorbic acid'' (lower n)
        then Some ''Vitamin C''
      else if sublist ''iron'' (lower n) then Some ''Iron''
      else if sublist ''calcium'' (lower n) then Some ''Calcium''
      else if sublist ''fiber'' (lower n) \<or> sublist ''dietary fiber'' (lower n)
        then Some ''Fiber''
      else None)"
  by (simp add: match_key_def NUTRIENT_KEY_MAP_def Let_def)

lemma match_key_category: "match_key n = Some k \<Longrightarrow> k \<in> categories"
  by (auto simp: match_key_chain categories_def split: if_splits)

text \<open>
  Claim C5. For every raw nutrient name, key matching returns the first category, in the
  order Protein, Vitamin C, Iron, Calcium, Fiber, one of whose triggers is a substring of
  the lowercased name, and nothing when no trigger is; "Vitamin C, total ascorbic acid"
  and "ascorbic acid" give Vitamin C, and "Potassium" gives nothing.
\<close>

theorem match_key_first_trigger:
  "match_key raw =
     (if sublist ''protein'' (lower raw) then Some ''Protein''
      else if sublist ''vitamin c'' (lower raw) \<or> sublist ''ascorbic acid'' (lower raw)
        then Some ''Vitamin C''
      else if sublist ''iron'' (lower raw) then Some ''Iron''
      else if sublist ''calcium'' (lower raw) then Some ''Calcium''
      else if sublist ''fiber'' (lower raw) \<or> sublist ''dietary fiber'' (lower raw)
        then Some ''Fiber''
      else None) \<and>
   match_key ''Vitamin C, total ascorbic acid'' = Some ''Vitamin C'' \<and>
   match_key ''ascorbic acid'' = Some ''Vitamin C'' \<and>
   match_key ''Potassium'' = None"
proof -
  have "match_key ''Vitamin C, total ascorbic acid'' = Some ''Vitamin C''"
    unfolding match_key_chain by (simp add: string_eval)
  moreover have "match_key ''ascorbic acid'' = Some ''Vitamin C''"
    unfolding match_key_chain by (simp add: string_eval)
  moreover have "match_key ''Potassium'' = None"
    unfolding match_key_chain by (simp add: string_eval)
  ultimately show ?thesis using match_key_chain [of raw] by simp
qed

section \<open>Deficiency evaluation\<close>

lemma adjusted_baseline_female_0_0:
  "adjusted_baseline ''female'' 0 0 =
     \<lparr>Protein_g = 50, Vitamin_C_mg = 90, Iron_mg = 18, Calcium_mg = 1000, Fiber_g = 30\<rparr>"
  by (simp add: adjusted_baseline_def default_baseline_def bmi_of_def string_eval)

lemma flag_grams_empty:
  "0 < b \<Longrightarrow> flag_grams [] k b d = AList.update k (str_round2 b @ '' g'') d"
  by (simp add: flag_grams_def dict_get_def)

lemma flag_mg_empty:
  "0 < b \<Longrightarrow> flag_mg [] (k, b) d = AList.update k (str_round2 b @ '' mg'') d"
  by (simp add: flag_mg_def dict_get_def)

lemma deficiency_empty_female:
  "calculate_deficiency [] ''female'' 0 0 =
     [(''Protein'', ''50.0 g''), (''Fiber'', ''30.0 g''), (''Vitamin C'', ''90.0 mg''),
      (''Iron'', ''18.0 mg''), (''Calcium'', ''1000.0 mg'')]"
  by (simp add: calculate_deficiency_def adjusted_baseline_female_0_0 flag_grams_empty
      flag_mg_empty str_round2_examples)

text \<open>
  Claim C2. For gender "female", height 0, weight 0 and empty totals, the deficiency
  evaluation returns a report with exactly the five tracked categories: Protein "50.0 g",
  Vitamin C "90.0 mg", Iron "18.0 mg", Calcium "1000.0 mg" and Fiber "30.0 g". The report
  is given in the order in which the code inserts its keys.
\<close>

theorem calculate_deficiency_empty_female:
  "calculate_deficiency [] ''female'' 0 0 =
     [(''Protein'', ''50.0 g''), (''Fiber'', ''30.0 g''), (''Vitamin C'', ''90.0 mg''),
      (''Iron'', ''18.0 mg''), (''Calcium'', ''1000.0 mg'')]"
  by (rule deficiency_empty_female)




text \<open>
  Outside the data model, a negative weight with a positive height gives a negative BMI,
  which is not zero and below 18.5: the code raises the baselines.
\<close>

lemma adjusted_baseline_negative_bmi:
  "bmi_of height_cm weight_kg < 0 \<Longrightarrow>
   adjusted_baseline gender height_cm weight_kg = scale_baseline 1.10 (default_baseline gender)"
  by (simp add: adjusted_baseline_def Let_def)

section \<open>Recommendations\<close>

text \<open>
  Claim C6 reads the output as a sequence of pairs and gives, for a report with only
  Protein and a temperature of 35, the five entries Chicken, Eggs, Paneer, Cucumber, Yogurt,
  the last two being the pairs ("Cucumber", "-") and ("Yogurt", "-"). The code returns five
  entries with these food names in this order; the first three are the pairs of the table,
  but the two it appends have three components, ("Cucumber", "-", "-") and
  ("Yogurt", "-", "-"), so the result is not the sequence of pairs of the claim.
\<close>

theorem recommend_foods_protein_hot:
  "recommend_foods [(''Protein'', ''50.0 g'')]
     (Some \<lparr>condition = ''Sunny'', temp = Some 35, humidity = 40\<rparr>) =
     [[''Chicken'', ''27 g''], [''Eggs'', ''13 g''], [''Paneer'', ''18 g''],
      [''Cucumber'', ''-'', ''-''], [''Yogurt'', ''-'', ''-'']] \<and>
   map hd (recommend_foods [(''Protein'', ''50.0 g'')]
     (Some \<lparr>condition = ''Sunny'', temp = Some 35, humidity = 40\<rparr>)) =
     [''Chicken'', ''Eggs'', ''Paneer'', ''Cucumber'', ''Yogurt''] \<and>
   recommend_foods [(''Protein'', ''50.0 g'')]
     (Some \<lparr>condition = ''Sunny'', temp = Some 35, humidity = 40\<rparr>) \<noteq>
     [[''Chicken'', ''27 g''], [''Eggs'', ''13 g''], [''Paneer'', ''18 g''],
      [''Cucumber'', ''-''], [''Yogurt'', ''-'']]"
  by (simp add: recommend_foods_def temp_foods_def base_def dict_get_def Let_def)

text \<open>
  Claim C9. For every deficiency report and every weather value the output of
  \<open>recommend_foods\<close> has at most 10 entries.
\<close>

theorem recommend_foods_at_most_10:
  "length (recommend_foods defic weather) \<le> 10"
  by (simp add: recommend_foods_def Let_def)

text \<open>
  The bound is reached: with all five categories deficient the fifteen entries of the
  table and the two appended ones are cut to the first ten.
\<close>

lemma recommend_foods_truncates:
  "recommend_foods (calculate_deficiency [] ''female'' 0 0) None =
     [[''Chicken'', ''27 g''], [''Eggs'', ''13 g''], [''Paneer'', ''18 g''],
      [''Oats'', ''10 g''], [''Apple'', ''4.5 g''], [''Carrots'', ''3 g''],
      [''Orange'', ''53 mg''], [''Guava'', ''200 mg''], [''Kiwi'', ''90 mg''],
      [''Spinach'', ''2.7 mg'']]"
  unfolding deficiency_empty_female
  by (simp add: recommend_foods_def temp_foods_def base_def dict_get_def Let_def)

section \<open>The accumulator\<close>

lemma reading_add_sample:
  "reading (add_sample q s t) = spec_add_sample q s (reading t)"
  by (cases s) (auto simp: reading_def add_sample_def spec_add_sample_def dict_get_def
      update_conv' fun_eq_iff Let_def split: option.splits)

lemma reading_fold_add_sample:
  "reading (fold (add_sample q) ss t) = fold (spec_add_sample q) ss (reading t)"
  by (induction ss arbitrary: t) (simp_all add: reading_add_sample)

lemma reading_analyze_item:
  "reading (snd (analyze_item usda it t)) =
     (\<lambda>(name, quantityGrams) total.
             if name = [] \<or> \<not> quantityGrams > 0 then total
             else fold (spec_add_sample quantityGrams) (get_food_nutrients usda name) total)
       (item_name it, item_qty_g it) (reading t)"
  by (simp add: analyze_item_def Let_def reading_fold_add_sample not_less)

lemma reading_analyze_items:
  "reading (snd (analyze_items usda items t)) =
     fold (\<lambda>(name, quantityGrams) total.
             if name = [] \<or> \<not> quantityGrams > 0 then total
             else fold (spec_add_sample quantityGrams) (get_food_nutrients usda name) total)
       (map (\<lambda>it. (item_name it, item_qty_g it)) items) (reading t)"
proof (induction items arbitrary: t)
  case Nil
  show ?case by simp
next
  case (Cons it items)
  obtain c1 t1 where s1: "analyze_item usda it t = (c1, t1)"
    by (cases "analyze_item usda it t")
  obtain c2 t2 where s2: "analyze_items usda items t1 = (c2, t2)"
    by (cases "analyze_items usda items t1")
  have "reading t1 = (\<lambda>(name, quantityGrams) total.
             if name = [] \<or> \<not> quantityGrams > 0 then total
             else fold (spec_add_sample quantityGrams) (get_food_nutrients usda name) total)
       (item_name it, item_qty_g it) (reading t)"
    using reading_analyze_item [of usda it t] s1 by simp
  moreover have "reading (snd (analyze_items usda (it # items) t)) = reading t2"
    using s1 s2 by simp
  moreover have "reading t2 = fold (\<lambda>(name, quantityGrams) total.
             if name = [] \<or> \<not> quantityGrams > 0 then total
             else fold (spec_add_sample quantityGrams) (get_food_nutrients usda name) total)
       (map (\<lambda>it. (item_name it, item_qty_g it)) items) (reading t1)"
    using Cons.IH [of t1] s2 by simp
  ultimately show ?case by simp
qed

text \<open>
  Claim C1. For every list of items and every food service, the loop of \<^verbatim>\<open>analyze\<close>
  computes the totals the specification describes: starting from totals that are zero
  everywhere, it skips every item whose name is empty or whose quantity is not greater than
  zero, and for every other item it scales each fetched sample by \<open>qty / 100\<close>, matches the
  sample's name and, when it matches, adds the scaled amount converted to milligrams to the
  total of the category (first conjunct; the name of an item is its \<^verbatim>\<open>name\<close> field without
  surrounding whitespace, its quantity its \<^verbatim>\<open>qty\<close> field, zero when absent). A skipped
  item sends no request and leaves the totals as they are (second conjunct). A failed
  fetch gives the empty sample set (third conjunct) and leaves the totals of the pass as
  they are (fourth conjunct); the loop has no failing branch.
\<close>

theorem accumulate_refines:
  "dict_get (snd (analyze_items usda items [])) category 0 =
     spec_accumulate (map (\<lambda>it. (item_name it, item_qty_g it)) items)
       (get_food_nutrients usda) category \<and>
   (item_name it = [] \<or> item_qty_g it \<le> 0 \<longrightarrow> analyze_item usda it t = ([], t)) \<and>
   (usda food = None \<longrightarrow> get_food_nutrients usda food = []) \<and>
   (usda (item_name it) = None \<longrightarrow> snd (analyze_item usda it t) = t)"
proof -
  have "reading (snd (analyze_items usda items [])) category =
     spec_accumulate (map (\<lambda>it. (item_name it, item_qty_g it)) items)
       (get_food_nutrients usda) category"
    unfolding reading_analyze_items spec_accumulate_def
    by (simp add: reading_def dict_get_def)
  then show ?thesis
    by (simp add: reading_def analyze_item_def get_food_nutrients_def Let_def)
qed

theorem accumulate_refines_witness:
  "dict_get (snd (analyze_items demo_usda demo_items [])) ''Protein'' 0 = 30000 \<and>
   spec_accumulate [(''egg'', 100), ([], 50), (''egg'', 200), (''rice'', 150), (''egg'', - 5), ([], 0)]
     (get_food_nutrients demo_usda) ''Protein'' = 30000 \<and>
   item_name \<lparr>it_name = Some ''  '', it_qty = Some 50\<rparr> = [] \<and>
   analyze_item demo_usda \<lparr>it_name = Some ''  '', it_qty = Some 50\<rparr> [(''Iron'', 2)] =
     ([], [(''Iron'', 2)]) \<and>
   demo_usda ''rice'' = None \<and>
   get_food_nutrients demo_usda ''rice'' = []"
proof -
  have blank: "item_name \<lparr>it_name = Some ''  '', it_qty = Some 50\<rparr> = []"
    by (simp add: item_name_def string_eval)
  have rice: "demo_usda ''rice'' = None"
    by (simp add: demo_usda_def)
  show ?thesis
    using accumulate_refines [of demo_usda demo_items "''Protein''"
        "\<lparr>it_name = Some ''  '', it_qty = Some 50\<rparr>" "[(''Iron'', 2)]" "''rice''"]
    by (simp add: demo_totals demo_fields dict_get_def blank rice)
qed

subsection \<open>The keys of the totals\<close>

lemma keys_add_sample:
  "fst ` set t \<subseteq> categories \<Longrightarrow> fst ` set (add_sample q s t) \<subseteq> categories"
  by (cases s)
    (auto simp: add_sample_def Let_def dom_update dest: match_key_category split: option.splits)

lemma keys_fold_add_sample:
  "fst ` set t \<subseteq> categories \<Longrightarrow> fst ` set (fold (add_sample q) ss t) \<subseteq> categories"
  by (induction ss arbitrary: t) (simp_all add: keys_add_sample)

lemma keys_analyze_item:
  "fst ` set t \<subseteq> categories \<Longrightarrow> fst ` set (snd (analyze_item usda it t)) \<subseteq> categories"
  by (simp add: analyze_item_def Let_def keys_fold_add_sample)

lemma keys_analyze_items:
  "fst ` set t \<subseteq> categories \<Longrightarrow> fst ` set (snd (analyze_items usda items t)) \<subseteq> categories"
proof (induction items arbitrary: t)
  case Nil
  then show ?case by simp
next
  case (Cons it items)
  have "fst ` set (snd (analyze_item usda it t)) \<subseteq> categories"
    using Cons.prems by (rule keys_analyze_item)
  then have "fst ` set (snd (analyze_items usda items (snd (analyze_item usda it t)))) \<subseteq> categories"
    by (rule Cons.IH)
  then show ?case by (simp add: split_beta Let_def)
qed

text \<open>
  Claim C7. After the loop over any items with any replies of the food service, every key
  of the totals is one of Protein, Vitamin C, Iron, Calcium, Fiber; a sample whose name
  matches no trigger leaves the totals, and so their keys, as they are.
\<close>

theorem totals_keys_tracked:
  "fst ` set (snd (analyze_items usda items [])) \<subseteq>
     {''Protein'', ''Vitamin C'', ''Iron'', ''Calcium'', ''Fiber''} \<and>
   (match_key full_name = None \<longrightarrow>
      add_sample qty_g (full_name, val, unit) totals_mg = totals_mg)"
  using keys_analyze_items [of "[]" usda items]
  by (simp add: categories_def add_sample_def)

theorem totals_keys_tracked_witness:
  "fst ` set (snd (analyze_items demo_usda demo_items [])) = {''Protein''} \<and>
   match_key ''Potassium, K'' = None \<and>
   add_sample 100 (''Potassium, K'', 126, ''MG'') [(''Protein'', 30000)] = [(''Protein'', 30000)]"
  using totals_keys_tracked [of demo_usda demo_items "''Potassium, K''" 100 126 "''MG''"
      "[(''Protein'', 30000)]"]
  by (simp add: demo_totals demo_match)

subsection \<open>The order of the items, in exact arithmetic\<close>

text \<open>
  Read as a finite map, the totals are a fold of \<open>map_item\<close> over the items, and two such
  steps commute. The proof of \<open>map_add_sample_commute\<close> reorders a sum of three terms, so it
  rests on the associativity and commutativity of the addition of \<^typ>\<open>real\<close>. The
  addition of binary64 floats is commutative but not associative (with \<open>2 ^ 53\<close>, \<open>1\<close> and
  \<open>1\<close> the two orders give \<open>2 ^ 53\<close> and \<open>2 ^ 53 + 2\<close>), so the lemmas of this subsection are
  statements about exact arithmetic only and say nothing on the rounded sums of the code.
\<close>

lemma map_of_add_sample: "map_of (add_sample q s t) = map_add_sample q s (map_of t)"
  by (cases s) (auto simp: add_sample_def map_add_sample_def dict_get_def update_conv' Let_def
      split: option.splits)

lemma map_of_fold_add_sample:
  "map_of (fold (add_sample q) ss t) = fold (map_add_sample q) ss (map_of t)"
  by (induction ss arbitrary: t) (simp_all add: map_of_add_sample)

lemma map_of_analyze_item: "map_of (snd (analyze_item usda it t)) = map_item usda it (map_of t)"
  by (simp add: analyze_item_def map_item_def Let_def map_of_fold_add_sample)

lemma map_of_analyze_items:
  "map_of (snd (analyze_items usda items t)) = fold (map_item usda) items (map_of t)"
proof (induction items arbitrary: t)
  case Nil
  show ?case by simp
next
  case (Cons it items)
  have "snd (analyze_items usda (it # items) t) =
        snd (analyze_items usda items (snd (analyze_item usda it t)))"
    by (simp add: split_beta Let_def)
  then show ?case
    by (simp add: Cons.IH map_of_analyze_item)
qed

lemma map_add_sample_commute:
  "map_add_sample q s (map_add_sample q' s' m) = map_add_sample q' s' (map_add_sample q s m)"
proof (cases s, cases s')
  fix n v u n' v' u'
  assume s: "s = (n, v, u)" and s': "s' = (n', v', u')"
  show ?thesis
  proof (cases "match_key n")
    case None
    then show ?thesis by (simp add: s map_add_sample_def)
  next
    case (Some k)
    note k = Some
    show ?thesis
    proof (cases "match_key n'")
      case None
      then show ?thesis by (simp add: s' map_add_sample_def)
    next
      case (Some k')
      show ?thesis
      proof (cases "k = k'")
        case True
        then show ?thesis
          using k Some by (simp add: s s' map_add_sample_def ac_simps split: option.splits)
      next
        case False
        then show ?thesis
          using k Some by (auto simp: s s' map_add_sample_def fun_upd_twist)
      qed
    qed
  qed
qed

lemma map_add_sample_fold_commute:
  "map_add_sample q s (fold (map_add_sample q') ss m) =
   fold (map_add_sample q') ss (map_add_sample q s m)"
  by (induction ss arbitrary: m) (simp_all add: map_add_sample_commute)

lemma fold_map_add_sample_commute:
  "fold (map_add_sample q) ss (fold (map_add_sample q') ss' m) =
   fold (map_add_sample q') ss' (fold (map_add_sample q) ss m)"
  by (induction ss arbitrary: m) (simp_all add: map_add_sample_fold_commute)

lemma map_item_commute:
  "map_item usda it \<circ> map_item usda it' = map_item usda it' \<circ> map_item usda it"
  by (simp add: fun_eq_iff map_item_def fold_map_add_sample_commute)

lemma totals_order_independent_exact:
  assumes "mset items = mset items'"
  shows "map_of (snd (analyze_items usda items [])) = map_of (snd (analyze_items usda items' []))"
proof -
  have "fold (map_item usda) items = fold (map_item usda) items'"
    using assms by (intro fold_multiset_equiv) (simp_all add: map_item_commute)
  then show ?thesis
    by (simp add: map_of_analyze_items)
qed

section \<open>The aggregation endpoint\<close>

text \<open>With a city, the requests are those of the weather lookup followed by those of the items.\<close>

lemma analyze_calls_with_city:
  "strip (or_empty (req_city r)) \<noteq> [] \<Longrightarrow>
   fst (analyze e r) =
     fst (get_weather e (strip (or_empty (req_city r)))) @
     fst (analyze_items (usda_service e) (req_items r) [])"
  by (simp add: analyze_def Let_def split_beta)

text \<open>
  Claim C10. For every request whose city is missing, or empty once surrounding whitespace
  is stripped, the endpoint answers with status 400 and the body "City required", and no
  request has been sent to the weather service or the food service.
\<close>

theorem analyze_city_required:
  assumes "req_city r = None \<or> (\<exists>s. req_city r = Some s \<and> strip s = [])"
  shows "analyze e r = ([], (400, Error ''City required''))"
  using assms by (auto simp: analyze_def Let_def or_empty_def strip_def)

theorem analyze_city_required_witness:
  "strip ''  '' = [] \<and>
   analyze demo_env \<lparr>req_city = Some ''  '', req_items = demo_items, req_gender = Some ''female'',
       req_height = Some 160, req_weight = Some 55\<rparr> = ([], (400, Error ''City required'')) \<and>
   analyze demo_env \<lparr>req_city = None, req_items = demo_items, req_gender = None,
       req_height = None, req_weight = None\<rparr> = ([], (400, Error ''City required'')) \<and>
   fst (analyze demo_env \<lparr>req_city = Some '' Pune'', req_items = demo_items, req_gender = None,
       req_height = None, req_weight = None\<rparr>) =
     [Weather_call ''Pune'', Usda_call ''egg'', Usda_call ''egg'', Usda_call ''rice'']"
proof -
  have s: "strip ''  '' = []" "strip '' Pune'' = ''Pune''"
    by (simp_all add: string_eval)
  have w: "fst (get_weather demo_env ''Pune'') = [Weather_call ''Pune'']"
    by (simp add: get_weather_def demo_env_def)
  have u: "usda_service demo_env = demo_usda"
    by (simp add: demo_env_def)
  show ?thesis
    using analyze_city_required [of "\<lparr>req_city = Some ''  '', req_items = demo_items,
        req_gender = Some ''female'', req_height = Some 160, req_weight = Some 55\<rparr>" demo_env]
      analyze_city_required [of "\<lparr>req_city = None, req_items = demo_items, req_gender = None,
        req_height = None, req_weight = None\<rparr>" demo_env]
      analyze_calls_with_city [of "\<lparr>req_city = Some '' Pune'', req_items = demo_items,
        req_gender = None, req_height = None, req_weight = None\<rparr>" demo_env]
    by (simp add: s w u demo_totals or_empty_def)
qed

end
